theory Spec2Isabelle
  imports Complex_Main
begin

section \<open>Values exchanged with the booking API\<close>

text \<open>
  \<open>RestAPI.py\<close> is a \<open>unittest.TestCase\<close> with six ordered test methods that talk to a
  remote booking service. What comes back from \<open>response.json()\<close> is an arbitrary decoded
  JSON document, so the class attributes \<open>token\<close> and \<open>booking_id\<close> may hold any Python
  value the decoder can build. \<open>pyval\<close> is that universe; a \<open>dict\<close> is kept as the list of
  its items (its keys are distinct) and read with \<open>map_of\<close>.
\<close>

datatype pyfloat = Finite rat | Infinity bool | NaN

datatype pyval =
    PNone
  | PBool bool
  | PInt int
  | PFloat pyfloat
  | PStr string
  | PList "pyval list"
  | PDict "(string \<times> pyval) list"

text \<open>Python truth value testing, as used by \<open>if not self.token\<close>.\<close>

fun truthy :: "pyval \<Rightarrow> bool" where
  "truthy PNone = False"
| "truthy (PBool b) = b"
| "truthy (PInt i) = (i \<noteq> 0)"
| "truthy (PFloat f) = (f \<noteq> Finite 0)"
| "truthy (PStr s) = (s \<noteq> [])"
| "truthy (PList xs) = (xs \<noteq> [])"
| "truthy (PDict kvs) = (kvs \<noteq> [])"

text \<open>\<open>str(n)\<close> for an integer, used by the f-strings that report a status code.\<close>

fun str_nat :: "nat \<Rightarrow> string" where
  "str_nat n =
     (if n < 10 then [''0123456789'' ! n]
      else str_nat (n div 10) @ [''0123456789'' ! (n mod 10)])"

declare str_nat.simps [simp del]

definition str_int :: "int \<Rightarrow> string" where
  "str_int i = (if i < 0 then CHR ''-'' # str_nat (nat (- i)) else str_nat (nat i))"

text \<open>
  An f-string that ends in an interpolated value, such as
  \<open>f"{BASE_URL}/booking/{self.booking_id}"\<close> or \<open>f"token={self.token}"\<close>: the literal part
  and the value whose \<open>str()\<close> follows it.
\<close>

datatype fstring = Text string | TextVal string pyval

section \<open>Exceptions\<close>

text \<open>
  Every exception carries what \<open>str(e)\<close> returns. The test methods never dispatch on the
  class of what they catch (\<open>except Exception\<close>); the runner does, for
  \<open>AssertionError\<close> (raised by \<open>self.fail\<close> and the assert methods) and \<open>SkipTest\<close>
  (raised by \<open>self.skipTest\<close>).
\<close>

datatype exc =
    AssertionError string
  | SkipTest string
  | RequestException string
  | JSONDecodeError string
  | RuntimeFault string

fun str_exc :: "exc \<Rightarrow> string" where
  "str_exc (AssertionError m) = m"
| "str_exc (SkipTest m) = m"
| "str_exc (RequestException m) = m"
| "str_exc (JSONDecodeError m) = m"
| "str_exc (RuntimeFault m) = m"

text \<open>
  Failures detected by library code. Their message text is composed by \<open>unittest\<close> and by
  the interpreter, not by this repository, so it is a parameter (\<open>describe\<close> below).
\<close>

datatype fault =
    NotEqual pyval pyval string
  | IsNone string
  | NoAttribute pyval string
  | NotSliceable pyval
  | NoItem pyval string

section \<open>The HTTP client and the remote service\<close>

datatype verb = GET | POST | PUT | DELETE

record request =
  meth :: verb
  req_url :: fstring
  json :: "pyval option"
  headers :: "(string \<times> fstring) list"
  timeout :: "int option"

text \<open>
  A response: its status code, its body text, and what \<open>response.json()\<close> does with it
  (\<open>Inl d\<close>: it raises, with description \<open>d\<close>).
\<close>

record response =
  status_code :: int
  response_text :: string
  response_json :: "string + pyval"

datatype outcome = Returns response | Raises string

text \<open>
  The world outside the suite: the remote service with the network in between, which
  answers a request in the light of all requests sent before, and the wording of
  library-generated messages.
\<close>

record env =
  http :: "request list \<Rightarrow> request \<Rightarrow> outcome"
  describe :: "fault \<Rightarrow> string"

section \<open>Class state\<close>

text \<open>
  \<open>booking_data\<close> is a \<open>dict\<close> object whose \<open>"bookingdates"\<close> item refers to a second
  \<open>dict\<close> object. \<open>dict.copy()\<close> is shallow, so the copy made by the update step shares
  the nested object with the fixture. The store keeps both kinds of object by address;
  \<open>next_addr\<close> is the first address not yet allocated.
\<close>

record dates_dict =
  checkin :: string
  checkout :: string

record booking_dict =
  firstname :: string
  lastname :: string
  totalprice :: int
  depositpaid :: bool
  bookingdates :: nat
  additionalneeds :: string

record state =
  token :: pyval
  booking_id :: pyval
  booking_data :: nat
  dicts :: "nat \<Rightarrow> booking_dict"
  dates :: "nat \<Rightarrow> dates_dict"
  next_addr :: nat
  sent :: "request list"

definition BASE_URL :: string where
  "BASE_URL = ''https://restful-booker.herokuapp.com''"

definition USERNAME :: string where
  "USERNAME = ''admin''"

definition PASSWORD :: string where
  "PASSWORD = ''password123''"

definition setUpClass :: state where
  "setUpClass =
     \<lparr> token = PNone,
       booking_id = PNone,
       booking_data = 1,
       dicts = (\<lambda>_. \<lparr> firstname = [], lastname = [], totalprice = 0, depositpaid = False,
                       bookingdates = 0, additionalneeds = [] \<rparr>)
               (1 := \<lparr> firstname = ''Ebrahim'', lastname = ''Hossain'', totalprice = 100,
                       depositpaid = True, bookingdates = 0,
                       additionalneeds = ''Breakfast'' \<rparr>),
       dates = (\<lambda>_. \<lparr> checkin = [], checkout = [] \<rparr>)
               (0 := \<lparr> checkin = ''2023-01-01'', checkout = ''2023-01-05'' \<rparr>),
       next_addr = 2,
       sent = [] \<rparr>"

text \<open>What the \<open>json=\<close> argument serialises: the object at an address, read through the store.\<close>

definition json_dates :: "dates_dict \<Rightarrow> pyval" where
  "json_dates d = PDict [(''checkin'', PStr (checkin d)), (''checkout'', PStr (checkout d))]"

definition json_booking :: "state \<Rightarrow> nat \<Rightarrow> pyval" where
  "json_booking st a =
     (let b = dicts st a in
      PDict [(''firstname'', PStr (firstname b)),
             (''lastname'', PStr (lastname b)),
             (''totalprice'', PInt (totalprice b)),
             (''depositpaid'', PBool (depositpaid b)),
             (''bookingdates'', json_dates (dates st (bookingdates b))),
             (''additionalneeds'', PStr (additionalneeds b))])"

section \<open>Library calls\<close>

text \<open>
  \<open>requests.get/post/put/delete\<close>: the request goes out (it is appended to \<open>sent\<close>), and
  the call returns a response or raises.
\<close>

definition requests :: "env \<Rightarrow> state \<Rightarrow> request \<Rightarrow> (exc + response) \<times> state" where
  "requests env st req =
     ((case http env (sent st) req of
         Raises d \<Rightarrow> Inl (RequestException d)
       | Returns r \<Rightarrow> Inr r),
      st\<lparr>sent := sent st @ [req]\<rparr>)"

text \<open>\<open>assertEqual\<close> on two integers (status codes).\<close>

definition assertEqual_int :: "env \<Rightarrow> int \<Rightarrow> int \<Rightarrow> string \<Rightarrow> exc + unit" where
  "assertEqual_int env first second msg =
     (if first = second then Inr ()
      else Inl (AssertionError (describe env (NotEqual (PInt first) (PInt second) msg))))"

text \<open>
  \<open>assertEqual\<close> of a decoded value against a \<open>str\<close>: Python's \<open>==\<close> holds only for a
  \<open>str\<close> with the same characters.
\<close>

definition assertEqual_str :: "env \<Rightarrow> pyval \<Rightarrow> string \<Rightarrow> string \<Rightarrow> exc + unit" where
  "assertEqual_str env first second msg =
     (if first = PStr second then Inr ()
      else Inl (AssertionError (describe env (NotEqual first (PStr second) msg))))"

definition assertIsNotNone :: "env \<Rightarrow> pyval \<Rightarrow> string \<Rightarrow> exc + unit" where
  "assertIsNotNone env obj msg =
     (if obj = PNone then Inl (AssertionError (describe env (IsNone msg))) else Inr ())"

text \<open>\<open>response.json()\<close>.\<close>

definition json_of :: "response \<Rightarrow> exc + pyval" where
  "json_of r = (case response_json r of Inl d \<Rightarrow> Inl (JSONDecodeError d) | Inr v \<Rightarrow> Inr v)"

text \<open>\<open>v.get(key)\<close>: defined on a \<open>dict\<close> only; a missing key gives \<open>None\<close>.\<close>

fun dict_get :: "env \<Rightarrow> pyval \<Rightarrow> string \<Rightarrow> exc + pyval" where
  "dict_get env (PDict kvs) key =
     (case map_of kvs key of None \<Rightarrow> Inr PNone | Some v \<Rightarrow> Inr v)"
| "dict_get env v key = Inl (RuntimeFault (describe env (NoAttribute v ''get'')))"

text \<open>\<open>v[key]\<close> with a \<open>str\<close> key: a missing key and every other type raise.\<close>

fun getitem :: "env \<Rightarrow> pyval \<Rightarrow> string \<Rightarrow> exc + pyval" where
  "getitem env (PDict kvs) key =
     (case map_of kvs key of
        None \<Rightarrow> Inl (RuntimeFault (describe env (NoItem (PDict kvs) key)))
      | Some v \<Rightarrow> Inr v)"
| "getitem env v key = Inl (RuntimeFault (describe env (NoItem v key)))"

text \<open>\<open>v[:5]\<close>: sequences can be sliced, nothing else that JSON decodes to.\<close>

fun slice5 :: "env \<Rightarrow> pyval \<Rightarrow> exc + pyval" where
  "slice5 env (PStr s) = Inr (PStr (take 5 s))"
| "slice5 env (PList xs) = Inr (PList (take 5 xs))"
| "slice5 env v = Inl (RuntimeFault (describe env (NotSliceable v)))"

text \<open>
  \<open>except Exception as e: self.fail(prefix + str(e))\<close>: whatever the \<open>try\<close> block raised
  leaves the method as an \<open>AssertionError\<close>.
\<close>

definition except_fail :: "string \<Rightarrow> (exc + unit) \<times> state \<Rightarrow> (exc + unit) \<times> state" where
  "except_fail prefix r =
     (case r of
        (Inl e, st) \<Rightarrow> (Inl (AssertionError (prefix @ str_exc e)), st)
      | (Inr u, st) \<Rightarrow> (Inr u, st))"

text \<open>
  \<open>updated_data = self.booking_data.copy()\<close>: a new \<open>dict\<close> object with the same items;
  the nested object is not copied, the new object refers to the same address.
\<close>

definition dict_copy :: "state \<Rightarrow> nat \<Rightarrow> nat \<times> state" where
  "dict_copy st a =
     (next_addr st,
      st\<lparr>dicts := (dicts st)(next_addr st := dicts st a), next_addr := Suc (next_addr st)\<rparr>)"

text \<open>\<open>d.update({"firstname": f, "lastname": l})\<close>: writes two items of the object at \<open>a\<close>.\<close>

definition dict_update_names :: "state \<Rightarrow> nat \<Rightarrow> string \<Rightarrow> string \<Rightarrow> state" where
  "dict_update_names st a f l =
     st\<lparr>dicts := (dicts st)(a := (dicts st a)\<lparr>firstname := f, lastname := l\<rparr>)\<rparr>"

section \<open>The six test methods\<close>

text \<open>
  A test method takes the outside world and the class state; it returns normally
  (\<open>Inr ()\<close>) or raises (\<open>Inl e\<close>), and leaves the class state behind. The \<open>print\<close> calls
  of the source write to the console only and are left out.
\<close>

type_synonym test_method = "env \<Rightarrow> state \<Rightarrow> (exc + unit) \<times> state"

definition test_00_verify_api_available :: test_method where
  "test_00_verify_api_available env st =
     except_fail ''API connection failed: ''
       (case requests env st
               \<lparr>meth = GET, req_url = Text BASE_URL, json = None, headers = [],
                timeout = Some 5\<rparr> of
          (Inl e, st1) \<Rightarrow> (Inl e, st1)
        | (Inr response, st1) \<Rightarrow>
            (assertEqual_int env (status_code response) 200
               (''API not reachable. Status: '' @ str_int (status_code response)), st1))"

definition test_01_authenticate :: test_method where
  "test_01_authenticate env st =
     (let auth_url = Text (BASE_URL @ ''/auth'');
          auth_data = PDict [(''username'', PStr USERNAME), (''password'', PStr PASSWORD)]
      in except_fail ''Authentication failed: ''
       (case requests env st
               \<lparr>meth = POST, req_url = auth_url, json = Some auth_data, headers = [],
                timeout = Some 5\<rparr> of
          (Inl e, st1) \<Rightarrow> (Inl e, st1)
        | (Inr response, st1) \<Rightarrow>
           (case assertEqual_int env (status_code response) 200
                   (''Auth failed. Status: '' @ str_int (status_code response)) of
              Inl e \<Rightarrow> (Inl e, st1)
            | Inr _ \<Rightarrow>
               (case json_of response of
                  Inl e \<Rightarrow> (Inl e, st1)
                | Inr data \<Rightarrow>
                   (case dict_get env data ''token'' of
                      Inl e \<Rightarrow> (Inl e, st1)
                    | Inr tok \<Rightarrow>
                       (case assertIsNotNone env tok ''No token in response'' of
                          Inl e \<Rightarrow> (Inl e, st1)
                        | Inr _ \<Rightarrow>
                           (let st2 = st1\<lparr>token := tok\<rparr> in
                            case slice5 env tok of
                              Inl e \<Rightarrow> (Inl e, st2)
                            | Inr _ \<Rightarrow> (Inr (), st2))))))))"

definition test_02_create_booking :: test_method where
  "test_02_create_booking env st =
     (if \<not> truthy (token st) then (Inl (SkipTest ''No authentication token available''), st)
      else
       let booking_url = Text (BASE_URL @ ''/booking'')
       in except_fail ''Booking creation failed: ''
        (case requests env st
                \<lparr>meth = POST, req_url = booking_url,
                 json = Some (json_booking st (booking_data st)), headers = [],
                 timeout = Some 5\<rparr> of
           (Inl e, st1) \<Rightarrow> (Inl e, st1)
         | (Inr response, st1) \<Rightarrow>
            (case assertEqual_int env (status_code response) 200
                    (''Create booking failed. Status: '' @ str_int (status_code response)) of
               Inl e \<Rightarrow> (Inl e, st1)
             | Inr _ \<Rightarrow>
                (case json_of response of
                   Inl e \<Rightarrow> (Inl e, st1)
                 | Inr response_data \<Rightarrow>
                    (case dict_get env response_data ''bookingid'' of
                       Inl e \<Rightarrow> (Inl e, st1)
                     | Inr bid \<Rightarrow>
                        (case assertIsNotNone env bid
                                (''No bookingid in response. Full response: ''
                                   @ response_text response) of
                           Inl e \<Rightarrow> (Inl e, st1)
                         | Inr _ \<Rightarrow> (Inr (), st1\<lparr>booking_id := bid\<rparr>)))))))"

definition test_03_get_booking :: test_method where
  "test_03_get_booking env st =
     (if \<not> truthy (booking_id st)
      then (Inl (SkipTest ''No booking ID available (creation likely failed)''), st)
      else
       let booking_url = TextVal (BASE_URL @ ''/booking/'') (booking_id st)
       in except_fail ''Failed to get booking: ''
        (case requests env st
                \<lparr>meth = GET, req_url = booking_url, json = None, headers = [],
                 timeout = Some 5\<rparr> of
           (Inl e, st1) \<Rightarrow> (Inl e, st1)
         | (Inr response, st1) \<Rightarrow>
            (case assertEqual_int env (status_code response) 200
                    (''Get booking failed. Status: '' @ str_int (status_code response)) of
               Inl e \<Rightarrow> (Inl e, st1)
             | Inr _ \<Rightarrow>
                (case json_of response of
                   Inl e \<Rightarrow> (Inl e, st1)
                 | Inr booking \<Rightarrow>
                    (case getitem env booking ''firstname'' of
                       Inl e \<Rightarrow> (Inl e, st1)
                     | Inr fn \<Rightarrow>
                        (assertEqual_str env fn (firstname (dicts st1 (booking_data st1)))
                           ''Firstname doesn't match'', st1))))))"

definition test_04_update_booking :: test_method where
  "test_04_update_booking env st =
     (if \<not> truthy (booking_id st) \<or> \<not> truthy (token st)
      then (Inl (SkipTest ''Missing booking ID or token''), st)
      else
       let update_url = TextVal (BASE_URL @ ''/booking/'') (booking_id st);
           (updated_data, st0) = dict_copy st (booking_data st);
           st0 = dict_update_names st0 updated_data ''UpdatedName'' ''UpdatedLastName'';
           headers = [(''Cookie'', TextVal ''token='' (token st0))]
       in except_fail ''Failed to update booking: ''
        (case requests env st0
                \<lparr>meth = PUT, req_url = update_url,
                 json = Some (json_booking st0 updated_data), headers = headers,
                 timeout = Some 5\<rparr> of
           (Inl e, st1) \<Rightarrow> (Inl e, st1)
         | (Inr response, st1) \<Rightarrow>
            (case assertEqual_int env (status_code response) 200
                    (''Update failed. Status: '' @ str_int (status_code response)) of
               Inl e \<Rightarrow> (Inl e, st1)
             | Inr _ \<Rightarrow>
                (case json_of response of
                   Inl e \<Rightarrow> (Inl e, st1)
                 | Inr updated_booking \<Rightarrow>
                    (case getitem env updated_booking ''firstname'' of
                       Inl e \<Rightarrow> (Inl e, st1)
                     | Inr fn \<Rightarrow>
                        (assertEqual_str env fn ''UpdatedName'' ''Firstname not updated'',
                         st1))))))"

definition test_05_delete_booking :: test_method where
  "test_05_delete_booking env st =
     (if \<not> truthy (booking_id st) \<or> \<not> truthy (token st)
      then (Inl (SkipTest ''Missing booking ID or token''), st)
      else
       let delete_url = TextVal (BASE_URL @ ''/booking/'') (booking_id st);
           headers = [(''Cookie'', TextVal ''token='' (token st))]
       in except_fail ''Failed to delete booking: ''
        (case requests env st
                \<lparr>meth = DELETE, req_url = delete_url, json = None, headers = headers,
                 timeout = Some 5\<rparr> of
           (Inl e, st1) \<Rightarrow> (Inl e, st1)
         | (Inr response, st1) \<Rightarrow>
            (case assertEqual_int env (status_code response) 201
                    (''Delete failed. Status: '' @ str_int (status_code response)) of
               Inl e \<Rightarrow> (Inl e, st1)
             | Inr _ \<Rightarrow>
                (case requests env st1
                        \<lparr>meth = GET, req_url = delete_url, json = None, headers = [],
                         timeout = None\<rparr> of
                   (Inl e, st2) \<Rightarrow> (Inl e, st2)
                 | (Inr get_response, st2) \<Rightarrow>
                    (assertEqual_int env (status_code get_response) 404
                       ''Booking still exists after deletion'', st2)))))"

section \<open>The runner\<close>

text \<open>
  \<open>unittest\<close> turns what a test method does into one result: a normal return passes, an
  \<open>AssertionError\<close> is a failure, a \<open>SkipTest\<close> is a skip, and any other exception that
  leaves the method is an error. The spec's \<open>StepResult\<close> has the first three.
\<close>

datatype step_result = Passed | Failed string | Skipped string | Errored string

definition run_test :: "test_method \<Rightarrow> env \<Rightarrow> state \<Rightarrow> step_result \<times> state" where
  "run_test t env st =
     (case t env st of
        (Inr _, st') \<Rightarrow> (Passed, st')
      | (Inl (AssertionError m), st') \<Rightarrow> (Failed m, st')
      | (Inl (SkipTest m), st') \<Rightarrow> (Skipped m, st')
      | (Inl e, st') \<Rightarrow> (Errored (str_exc e), st'))"

text \<open>The test methods in the order the loader runs them: sorted by name.\<close>

definition test_methods :: "test_method list" where
  "test_methods =
     [test_00_verify_api_available, test_01_authenticate, test_02_create_booking,
      test_03_get_booking, test_04_update_booking, test_05_delete_booking]"

fun run_tests :: "env \<Rightarrow> test_method list \<Rightarrow> state \<Rightarrow> step_result list \<times> state" where
  "run_tests env [] st = ([], st)"
| "run_tests env (t # ts) st =
     (case run_test t env st of
        (r, st1) \<Rightarrow> (case run_tests env ts st1 of (rs, st2) \<Rightarrow> (r # rs, st2)))"

text \<open>\<open>unittest.main()\<close>: \<open>setUpClass\<close> once, then every test method.\<close>

definition unittest_main :: "env \<Rightarrow> step_result list \<times> state" where
  "unittest_main env = run_tests env test_methods setUpClass"

section \<open>The requests the methods issue\<close>



definition create_request :: "state \<Rightarrow> request" where
  "create_request st =
     \<lparr>meth = POST, req_url = Text (BASE_URL @ ''/booking''),
      json = Some (json_booking st (booking_data st)), headers = [], timeout = Some 5\<rparr>"

definition get_request :: "state \<Rightarrow> request" where
  "get_request st =
     \<lparr>meth = GET, req_url = TextVal (BASE_URL @ ''/booking/'') (booking_id st), json = None,
      headers = [], timeout = Some 5\<rparr>"

definition update_request :: "state \<Rightarrow> request" where
  "update_request st =
     \<lparr>meth = PUT, req_url = TextVal (BASE_URL @ ''/booking/'') (booking_id st),
      json = Some (PDict [(''firstname'', PStr ''UpdatedName''),
                          (''lastname'', PStr ''UpdatedLastName''),
                          (''totalprice'', PInt (totalprice (dicts st (booking_data st)))),
                          (''depositpaid'', PBool (depositpaid (dicts st (booking_data st)))),
                          (''bookingdates'',
                             json_dates (dates st (bookingdates (dicts st (booking_data st))))),
                          (''additionalneeds'',
                             PStr (additionalneeds (dicts st (booking_data st))))]),
      headers = [(''Cookie'', TextVal ''token='' (token st))], timeout = Some 5\<rparr>"

definition delete_request :: "state \<Rightarrow> request" where
  "delete_request st =
     \<lparr>meth = DELETE, req_url = TextVal (BASE_URL @ ''/booking/'') (booking_id st), json = None,
      headers = [(''Cookie'', TextVal ''token='' (token st))], timeout = Some 5\<rparr>"

definition verify_request :: "state \<Rightarrow> request" where
  "verify_request st =
     \<lparr>meth = GET, req_url = TextVal (BASE_URL @ ''/booking/'') (booking_id st), json = None,
      headers = [], timeout = None\<rparr>"


text \<open>
  The class states a run can be in: the one \<open>setUpClass\<close> builds, and whatever a test
  method leaves behind, in any order and against any outside world.
\<close>

inductive reachable :: "state \<Rightarrow> bool" where
  start: "reachable setUpClass"
| after: "reachable st \<Longrightarrow> t \<in> set test_methods \<Longrightarrow> reachable (snd (t env st))"

section \<open>Concrete services\<close>

text \<open>
  A scripted booking service in the shape of section 6 of the spec, for running the suite
  on concrete inputs. The replies to \<open>POST /auth\<close> and \<open>POST /booking\<close> are parameters; a
  booking is gone once a \<open>DELETE\<close> has been sent.
\<close>

definition reply :: "int \<Rightarrow> string \<Rightarrow> string + pyval \<Rightarrow> response" where
  "reply c t j = \<lparr>status_code = c, response_text = t, response_json = j\<rparr>"

definition not_json :: "string + pyval" where
  "not_json = Inl ''Expecting value: line 1 column 1 (char 0)''"

definition stored_json :: pyval where
  "stored_json =
     PDict [(''firstname'', PStr ''Ebrahim''), (''lastname'', PStr ''Hossain''),
            (''totalprice'', PInt 100), (''depositpaid'', PBool True),
            (''bookingdates'',
               PDict [(''checkin'', PStr ''2023-01-01''), (''checkout'', PStr ''2023-01-05'')]),
            (''additionalneeds'', PStr ''Breakfast'')]"

definition stored_text :: string where
  \<open>stored_text = ''{"firstname":"Ebrahim","lastname":"Hossain","totalprice":100,"depositpaid":true,"bookingdates":{"checkin":"2023-01-01","checkout":"2023-01-05"},"additionalneeds":"Breakfast"}''\<close>

definition updated_json :: pyval where
  "updated_json =
     PDict [(''firstname'', PStr ''UpdatedName''), (''lastname'', PStr ''UpdatedLastName''),
            (''totalprice'', PInt 100), (''depositpaid'', PBool True),
            (''bookingdates'',
               PDict [(''checkin'', PStr ''2023-01-01''), (''checkout'', PStr ''2023-01-05'')]),
            (''additionalneeds'', PStr ''Breakfast'')]"

definition updated_text :: string where
  \<open>updated_text = ''{"firstname":"UpdatedName","lastname":"UpdatedLastName","totalprice":100,"depositpaid":true,"bookingdates":{"checkin":"2023-01-01","checkout":"2023-01-05"},"additionalneeds":"Breakfast"}''\<close>

definition booker :: "response \<Rightarrow> response \<Rightarrow> request list \<Rightarrow> request \<Rightarrow> outcome" where
  "booker auth_reply create_reply hist req =
     (case req_url req of
        Text u \<Rightarrow>
          (if meth req = GET \<and> u = BASE_URL then Returns (reply 200 ''<html></html>'' not_json)
           else if meth req = POST \<and> u = BASE_URL @ ''/auth'' then Returns auth_reply
           else if meth req = POST \<and> u = BASE_URL @ ''/booking'' then Returns create_reply
           else Returns (reply 404 ''Not Found'' not_json))
      | TextVal u v \<Rightarrow>
          (if DELETE \<in> set (map meth hist) then Returns (reply 404 ''Not Found'' not_json)
           else if meth req = GET then Returns (reply 200 stored_text (Inr stored_json))
           else if meth req = PUT then Returns (reply 200 updated_text (Inr updated_json))
           else if meth req = DELETE then Returns (reply 201 ''Created'' not_json)
           else Returns (reply 404 ''Not Found'' not_json)))"

definition plain_describe :: "fault \<Rightarrow> string" where
  "plain_describe f =
     (case f of
        NotEqual a b m \<Rightarrow> m
      | IsNone m \<Rightarrow> ''unexpectedly None : '' @ m
      | NoAttribute v a \<Rightarrow> ''object has no attribute '' @ a
      | NotSliceable v \<Rightarrow> ''object is not subscriptable''
      | NoItem v k \<Rightarrow> k)"

definition token_reply :: response where
  \<open>token_reply = reply 200 ''{"token":"abc123"}'' (Inr (PDict [(''token'', PStr ''abc123'')]))\<close>


definition numeric_token_reply :: response where
  \<open>numeric_token_reply = reply 200 ''{"token":12345}'' (Inr (PDict [(''token'', PInt 12345)]))\<close>

definition created_reply :: response where
  \<open>created_reply =
     reply 200 ''{"bookingid":1,"booking":{}}''
       (Inr (PDict [(''bookingid'', PInt 1), (''booking'', PDict [])]))\<close>



definition world :: "response \<Rightarrow> response \<Rightarrow> env" where
  "world auth_reply create_reply =
     \<lparr>http = booker auth_reply create_reply, describe = plain_describe\<rparr>"

text \<open>A service that cannot be reached: every call raises.\<close>

definition unreachable_world :: env where
  "unreachable_world =
     \<lparr>http = (\<lambda>hist req. Raises ''Connection refused''), describe = plain_describe\<rparr>"

text \<open>A class state with a token and a booking identifier in place.\<close>

definition ready :: state where
  "ready = setUpClass\<lparr>token := PStr ''abc123'', booking_id := PInt 1\<rparr>"


section \<open>What each step does\<close>

text \<open>
  Each test method under the runner, as one decision tree over what the service answers:
  which result the step gets and which class state it leaves.
\<close>

lemmas run_defs = run_test_def requests_def except_fail_def assertEqual_int_def
  assertEqual_str_def assertIsNotNone_def json_of_def Let_def





lemma run_test_02:
  "run_test test_02_create_booking env st =
    (if \<not> truthy (token st) then (Skipped ''No authentication token available'', st)
     else
     let st1 = st\<lparr>sent := sent st @ [create_request st]\<rparr>;
         p = ''Booking creation failed: ''
     in case http env (sent st) (create_request st) of
       Raises d \<Rightarrow> (Failed (p @ d), st1)
     | Returns r \<Rightarrow>
        if status_code r \<noteq> 200
        then (Failed (p @ describe env (NotEqual (PInt (status_code r)) (PInt 200)
                 (''Create booking failed. Status: '' @ str_int (status_code r)))), st1)
        else case response_json r of
           Inl d \<Rightarrow> (Failed (p @ d), st1)
         | Inr v \<Rightarrow>
            (case dict_get env v ''bookingid'' of
               Inl e \<Rightarrow> (Failed (p @ str_exc e), st1)
             | Inr bid \<Rightarrow>
                if bid = PNone
                then (Failed (p @ describe env (IsNone
                        (''No bookingid in response. Full response: '' @ response_text r))), st1)
                else (Passed, st1\<lparr>booking_id := bid\<rparr>)))"
  by (simp add: run_defs test_02_create_booking_def create_request_def
      split: outcome.splits sum.splits)

lemma run_test_03:
  "run_test test_03_get_booking env st =
    (if \<not> truthy (booking_id st)
     then (Skipped ''No booking ID available (creation likely failed)'', st)
     else
     let st1 = st\<lparr>sent := sent st @ [get_request st]\<rparr>;
         p = ''Failed to get booking: ''
     in case http env (sent st) (get_request st) of
       Raises d \<Rightarrow> (Failed (p @ d), st1)
     | Returns r \<Rightarrow>
        if status_code r \<noteq> 200
        then (Failed (p @ describe env (NotEqual (PInt (status_code r)) (PInt 200)
                 (''Get booking failed. Status: '' @ str_int (status_code r)))), st1)
        else case response_json r of
           Inl d \<Rightarrow> (Failed (p @ d), st1)
         | Inr v \<Rightarrow>
            (case getitem env v ''firstname'' of
               Inl e \<Rightarrow> (Failed (p @ str_exc e), st1)
             | Inr fn \<Rightarrow>
                if fn \<noteq> PStr (firstname (dicts st (booking_data st)))
                then (Failed (p @ describe env (NotEqual fn
                        (PStr (firstname (dicts st (booking_data st))))
                        ''Firstname doesn't match'')), st1)
                else (Passed, st1)))"
  by (simp add: run_defs test_03_get_booking_def get_request_def
      split: outcome.splits sum.splits)

lemma run_test_04:
  "run_test test_04_update_booking env st =
    (if \<not> truthy (booking_id st) \<or> \<not> truthy (token st)
     then (Skipped ''Missing booking ID or token'', st)
     else
     let st0 = st\<lparr>dicts := (dicts st)(next_addr st :=
                     (dicts st (booking_data st))\<lparr>firstname := ''UpdatedName'',
                                                  lastname := ''UpdatedLastName''\<rparr>),
                  next_addr := Suc (next_addr st)\<rparr>;
         st1 = st0\<lparr>sent := sent st @ [update_request st]\<rparr>;
         p = ''Failed to update booking: ''
     in case http env (sent st) (update_request st) of
       Raises d \<Rightarrow> (Failed (p @ d), st1)
     | Returns r \<Rightarrow>
        if status_code r \<noteq> 200
        then (Failed (p @ describe env (NotEqual (PInt (status_code r)) (PInt 200)
                 (''Update failed. Status: '' @ str_int (status_code r)))), st1)
        else case response_json r of
           Inl d \<Rightarrow> (Failed (p @ d), st1)
         | Inr v \<Rightarrow>
            (case getitem env v ''firstname'' of
               Inl e \<Rightarrow> (Failed (p @ str_exc e), st1)
             | Inr fn \<Rightarrow>
                if fn \<noteq> PStr ''UpdatedName''
                then (Failed (p @ describe env (NotEqual fn (PStr ''UpdatedName'')
                        ''Firstname not updated'')), st1)
                else (Passed, st1)))"
  by (simp add: run_defs test_04_update_booking_def update_request_def dict_copy_def
      dict_update_names_def json_booking_def
      split: outcome.splits sum.splits)

lemma run_test_05:
  "run_test test_05_delete_booking env st =
    (if \<not> truthy (booking_id st) \<or> \<not> truthy (token st)
     then (Skipped ''Missing booking ID or token'', st)
     else case http env (sent st) (delete_request st) of
       Raises d \<Rightarrow> (Failed (''Failed to delete booking: '' @ d),
                     st\<lparr>sent := sent st @ [delete_request st]\<rparr>)
     | Returns r \<Rightarrow>
        if status_code r \<noteq> 201
        then (Failed (''Failed to delete booking: '' @ describe env (NotEqual (PInt (status_code r)) (PInt 201)
                 (''Delete failed. Status: '' @ str_int (status_code r)))),
              st\<lparr>sent := sent st @ [delete_request st]\<rparr>)
        else case http env (sent st @ [delete_request st]) (verify_request st) of
           Raises d \<Rightarrow> (Failed (''Failed to delete booking: '' @ d),
                     st\<lparr>sent := sent st @ [delete_request st, verify_request st]\<rparr>)
         | Returns g \<Rightarrow>
            if status_code g \<noteq> 404
            then (Failed (''Failed to delete booking: '' @ describe env (NotEqual (PInt (status_code g)) (PInt 404)
                 ''Booking still exists after deletion'')),
                 st\<lparr>sent := sent st @ [delete_request st, verify_request st]\<rparr>)
            else (Passed, st\<lparr>sent := sent st @ [delete_request st, verify_request st]\<rparr>))"
  by (simp add: run_defs test_05_delete_booking_def delete_request_def verify_request_def
      split: outcome.splits)

section \<open>Preconditions and skips\<close>

lemmas test_defs =
  test_00_verify_api_available_def test_01_authenticate_def test_02_create_booking_def
  test_03_get_booking_def test_04_update_booking_def test_05_delete_booking_def

text \<open>
  C8, as the code has it. The creation step run with no token (\<open>token\<close> is \<open>None\<close>) is
  skipped, sends nothing and leaves the class state as it was; the reason it gives is
  the literal of line 71, "No authentication token available".
\<close>

theorem create_skipped_without_token:
  "token st = PNone \<Longrightarrow>
   run_test test_02_create_booking env st = (Skipped ''No authentication token available'', st)"
  by (simp add: run_test_def test_02_create_booking_def)

theorem create_skipped_without_token_witness:
  "token setUpClass = PNone \<and>
   run_test test_02_create_booking unreachable_world setUpClass =
     (Skipped ''No authentication token available'', setUpClass)"
proof -
  have h: "token setUpClass = PNone" by (simp add: setUpClass_def)
  show ?thesis using h create_skipped_without_token [OF h, of unreachable_world] by simp
qed

text \<open>
  C8 as the spec words it: the reason would be exactly "no authentication token". Run on
  the state \<open>setUpClass\<close> builds, the step gives another text.
\<close>

theorem create_skip_reason_counterexample:
  "fst (run_test test_02_create_booking (world token_reply created_reply) setUpClass)
     = Skipped ''No authentication token available'' \<and>
   Skipped ''No authentication token available'' \<noteq> Skipped ''no authentication token''"
  by code_simp

text \<open>
  C10. The preconditions test truth values: a booking identifier \<open>0\<close> and an empty token
  skip the steps that need them, with the same reason, without a request and without a
  change of state, and the result is the one the step gives when the value is \<open>None\<close>.
\<close>

theorem falsy_values_skip:
  "(booking_id st = PInt 0 \<longrightarrow>
      run_test test_03_get_booking env st
        = (Skipped ''No booking ID available (creation likely failed)'', st)
    \<and> run_test test_04_update_booking env st = (Skipped ''Missing booking ID or token'', st)
    \<and> run_test test_05_delete_booking env st = (Skipped ''Missing booking ID or token'', st)
    \<and> (\<forall>t \<in> {test_03_get_booking, test_04_update_booking, test_05_delete_booking}.
          fst (run_test t env st) = fst (run_test t env (st\<lparr>booking_id := PNone\<rparr>))))
   \<and> (token st = PStr [] \<longrightarrow>
      run_test test_02_create_booking env st
        = (Skipped ''No authentication token available'', st)
    \<and> run_test test_04_update_booking env st = (Skipped ''Missing booking ID or token'', st)
    \<and> run_test test_05_delete_booking env st = (Skipped ''Missing booking ID or token'', st)
    \<and> (\<forall>t \<in> {test_02_create_booking, test_04_update_booking, test_05_delete_booking}.
          fst (run_test t env st) = fst (run_test t env (st\<lparr>token := PNone\<rparr>))))"
  by (simp add: run_test_02 run_test_03 run_test_04 run_test_05)

theorem falsy_values_skip_witness:
  "booking_id (ready\<lparr>booking_id := PInt 0\<rparr>) = PInt 0 \<and>
   token (ready\<lparr>token := PStr []\<rparr>) = PStr [] \<and>
   fst (run_test test_03_get_booking (world token_reply created_reply)
          (ready\<lparr>booking_id := PInt 0\<rparr>))
     = Skipped ''No booking ID available (creation likely failed)'' \<and>
   fst (run_test test_05_delete_booking (world token_reply created_reply)
          (ready\<lparr>booking_id := PInt 0\<rparr>))
     = Skipped ''Missing booking ID or token'' \<and>
   fst (run_test test_02_create_booking (world token_reply created_reply)
          (ready\<lparr>token := PStr []\<rparr>))
     = Skipped ''No authentication token available'' \<and>
   fst (run_test test_04_update_booking (world token_reply created_reply)
          (ready\<lparr>token := PStr []\<rparr>))
     = Skipped ''Missing booking ID or token''"
proof -
  have h1: "booking_id (ready\<lparr>booking_id := PInt 0\<rparr>) = PInt 0" by simp
  have h2: "token (ready\<lparr>token := PStr []\<rparr>) = PStr []" by simp
  show ?thesis
    using h1 h2
      falsy_values_skip [of "ready\<lparr>booking_id := PInt 0\<rparr>" "world token_reply created_reply"]
      falsy_values_skip [of "ready\<lparr>token := PStr []\<rparr>" "world token_reply created_reply"]
    by simp
qed

section \<open>Deleting and retrieving\<close>





section \<open>Authenticating and creating\<close>







text \<open>
  C4 at a reply the service can send: status 200 with a numeric token. Line 62 stores the
  token, then the slice \<open>token[:5]\<close> of line 63 raises inside the \<open>try\<close> block. The step
  is a failure, the token stays stored, and the creation step that follows is not skipped.
\<close>

theorem authenticate_failure_keeps_stored_token:
  "fst (run_test test_01_authenticate (world numeric_token_reply created_reply) setUpClass)
     = Failed ''Authentication failed: object is not subscriptable'' \<and>
   token (snd (run_test test_01_authenticate (world numeric_token_reply created_reply)
                 setUpClass)) = PInt 12345 \<and>
   fst (run_test test_02_create_booking (world numeric_token_reply created_reply)
          (snd (run_test test_01_authenticate (world numeric_token_reply created_reply)
                  setUpClass))) = Passed"
  by code_simp

text \<open>
  C6 on a run against a service that answers every call as section 6 of the spec says.
  Seven calls go out; the first six carry \<open>timeout=5\<close>, the \<open>GET\<close> of line 178 that
  checks the deletion carries none.
\<close>

theorem verification_get_has_no_timeout:
  "map timeout (sent (snd (unittest_main (world token_reply created_reply))))
     = [Some 5, Some 5, Some 5, Some 5, Some 5, Some 5, None] \<and>
   last (sent (snd (unittest_main (world token_reply created_reply))))
     = verify_request ready \<and>
   fst (unittest_main (world token_reply created_reply))
     = [Passed, Passed, Passed, Passed, Passed, Passed]"
  by code_simp

section \<open>Transport failures\<close>
















section \<open>The fixture\<close>






end
